theory Spec2Isabelle
  imports Main
begin

section \<open>The security review API handlers (api/security_review_api.py)\<close>

text \<open>
  The module holds one class, \<open>SecurityReviewAPI\<close>, with two request handlers:
  \<open>do_get\<close> verifies a continuity issue id against the origin trials service, and
  \<open>do_post\<close> creates a launch issue for a feature and records its id on the feature.
  Both are glue: they validate their input, consult collaborators (the datastore, the
  permission module, the origin trials client) and abort or return.

  The embedding makes every effect explicit. A handler takes its collaborators as
  functions and the world as a record (the datastore and the log of what has been
  asked of the collaborators so far); it returns how the handler ended together with
  the world it leaves behind.
\<close>

subsection \<open>Python values\<close>

text \<open>
  A field of the deserialized JSON body: \<open>None\<close>, an \<open>int\<close>, or a value that is
  not an instance of \<open>int\<close> (a string stands for those).
\<close>

datatype pyval = PNone | PInt int | PStr string

text \<open>\<open>str(n)\<close> for an integer, as an f-string formats it: decimal, with a minus sign.\<close>

definition digit_char :: "nat \<Rightarrow> char" where
  "digit_char d = char_of (48 + d)"

fun str_nat :: "nat \<Rightarrow> string" where
  "str_nat n = (if n < 10 then [digit_char n] else str_nat (n div 10) @ [digit_char (n mod 10)])"

declare str_nat.simps [simp del]

definition str_int :: "int \<Rightarrow> string" where
  "str_int i = (if i < 0 then CHR ''-'' # str_nat (nat (- i)) else str_nat (nat i))"

text \<open>\<open>str(x)\<close> for an optional integer: \<open>None\<close> is formatted as the word None.\<close>

definition str_opt_int :: "int option \<Rightarrow> string" where
  "str_opt_int x = (case x of None \<Rightarrow> ''None'' | Some i \<Rightarrow> str_int i)"

subsection \<open>The datastore and the collaborators\<close>

text \<open>
  \<open>FeatureEntry\<close> with the two attributes the handlers read or write. The entity's key
  is the key of the datastore map.
\<close>

record FeatureEntry =
  continuity_id :: "int option"
  launch_issue_id :: "int option"

text \<open>
  What a handler asks of its collaborators, in the order it asks: the two datastore
  lookups, the permission check, the two calls of the origin trials client, and
  \<open>feature.put()\<close> with the entity as it is written.
\<close>

datatype event =
    GetFeature int
  | ValidatePermission int
  | GetGate int
  | VerifyContinuityIssue int
  | CreateLaunchIssue int int "int option"
  | PutFeature int FeatureEntry

text \<open>The world: the two entity kinds by id, and the log. \<open>'g\<close> is the \<open>Gate\<close> entity.\<close>

record 'g world =
  features :: "int \<rightharpoonup> FeatureEntry"
  gates :: "int \<rightharpoonup> 'g"
  trace :: "event list"

definition log_event :: "event \<Rightarrow> 'g world \<Rightarrow> 'g world" where
  "log_event e w = w\<lparr>trace := trace w @ [e]\<rparr>"

text \<open>
  \<open>feature.put()\<close>: the entity is stored under the key it was loaded with.
\<close>

definition put_feature :: "int \<Rightarrow> FeatureEntry \<Rightarrow> 'g world \<Rightarrow> 'g world" where
  "put_feature k f w = log_event (PutFeature k f) (w\<lparr>features := (features w)(k \<mapsto> f)\<rparr>)"

text \<open>
  A call of the origin trials client returns or raises. The handlers catch
  \<open>requests.exceptions.RequestException\<close> and \<open>KeyError\<close>; anything else passes through.
\<close>

datatype client_exc = RequestException | KeyError | OtherException

datatype 'a client_result = Returns 'a | Raises client_exc

text \<open>
  How a handler ends: it returns a response, \<open>self.abort(status, msg)\<close> raises the HTTP
  error, or an exception it does not catch leaves it.
\<close>

datatype 'a outcome = Return 'a | Abort nat string | Uncaught client_exc

text \<open>
  \<open>permissions.validate_feature_edit_permission\<close> gives a redirect response or \<open>None\<close>.
  A response object is truthy, \<open>None\<close> is not.
\<close>

datatype response = Redirect string

definition truthy_response :: "response option \<Rightarrow> bool" where
  "truthy_response r = (case r of None \<Rightarrow> False | Some _ \<Rightarrow> True)"

text \<open>Truthiness of an optional string: \<open>None\<close> and the empty string are falsy.\<close>

definition truthy_str :: "string option \<Rightarrow> bool" where
  "truthy_str s = (case s of None \<Rightarrow> False | Some t \<Rightarrow> t \<noteq> [])"

subsection \<open>do\_get\<close>

text \<open>
  \<open>kwargs.get('continuity_id')\<close> is the request parameter, or \<open>None\<close> when it is
  absent. The routes are declared outside this module; the parameter is taken as text,
  which is what parsing it with \<open>int\<close> and catching \<open>ValueError\<close> supposes. Of the text
  the handler uses two things only: whether it is empty, and what \<open>int\<close> makes of it.

  \<open>int_of_text\<close> is Python's builtin \<open>int\<close> on a text: \<open>Some n\<close> when it gives the
  integer \<open>n\<close>, \<open>None\<close> when it raises \<open>ValueError\<close>. Which texts \<open>int\<close> accepts
  (whitespace around the numeral, underscores, digits of other scripts, the limit on
  the number of digits) is the interpreter's matter, not the module's, so the handler
  takes \<open>int\<close> as it takes its collaborators and is modelled for whatever \<open>int\<close>
  answers. \<open>verify\<close> is \<open>origin_trials_client.verify_continuity_issue\<close> and \<open>from_dict\<close>
  is \<open>VerifyContinuityIssueResponse.from_dict\<close>. Where \<open>the\<close> is applied, the truthiness
  test before it has excluded \<open>None\<close>.
\<close>

definition do_get ::
  "(string \<Rightarrow> int option) \<Rightarrow> (int \<Rightarrow> 'd client_result) \<Rightarrow> ('d \<Rightarrow> 'r) \<Rightarrow> string option
     \<Rightarrow> 'g world \<Rightarrow> 'r outcome \<times> 'g world" where
  "do_get int_of_text verify from_dict continuity_id_arg w =
     (if \<not> truthy_str continuity_id_arg then (Abort 400 ''No continuity ID specified.'', w)
      else
        case int_of_text (the continuity_id_arg) of
          None \<Rightarrow> (Abort 400 ''Invalid continuity ID.'', w)
        | Some cid \<Rightarrow>
            let w1 = log_event (VerifyContinuityIssue cid) w in
            (case verify cid of
               Raises RequestException \<Rightarrow>
                 (Abort 500 ''Error obtaining origin trial data from API'', w1)
             | Raises KeyError \<Rightarrow>
                 (Abort 500 ''Malformed response from origin trials API'', w1)
             | Raises OtherException \<Rightarrow> (Uncaught OtherException, w1)
             | Returns resp \<Rightarrow> (Return (from_dict resp), w1)))"

subsection \<open>do\_post\<close>

text \<open>\<open>CreateLaunchIssueRequest\<close>, the deserialized body, and \<open>SuccessMessage\<close>.\<close>

record CreateLaunchIssueRequest =
  feature_id :: pyval
  gate_id :: pyval

record SuccessMessage =
  message :: string

text \<open>
  The handler. \<open>perm\<close> is \<open>permissions.validate_feature_edit_permission\<close> for the
  handler's request, as a function of the feature id, and \<open>create\<close> is
  \<open>origin_trials_client.create_launch_issue\<close>. The checks come in the order of the
  source; after them the call of the client inside \<open>try\<close>, the write of the issue
  id, the test of \<open>failed_reason\<close> and the answer.
\<close>

definition do_post ::
  "(int \<Rightarrow> response option)
     \<Rightarrow> (int \<Rightarrow> int \<Rightarrow> int option \<Rightarrow> (int option \<times> string option) client_result)
     \<Rightarrow> CreateLaunchIssueRequest \<Rightarrow> 'g world \<Rightarrow> SuccessMessage outcome \<times> 'g world" where
  "do_post perm create body w =
     (case feature_id body of
        PNone \<Rightarrow> (Abort 400 ''No feature specified.'', w)
      | PStr _ \<Rightarrow> (Abort 400 ''Invalid feature ID.'', w)
      | PInt fid \<Rightarrow>
          let w1 = log_event (GetFeature fid) w in
          (case features w1 fid of
             None \<Rightarrow> (Abort 404 (''Feature '' @ str_int fid @ '' not found''), w1)
           | Some feature \<Rightarrow>
               if launch_issue_id feature \<noteq> None
               then (Abort 400 ''Feature already has a security review issue.'', w1)
               else
                 let w2 = log_event (ValidatePermission fid) w1 in
                 if truthy_response (perm fid)
                 then (Abort 403 ''User does not have permission to edit this feature.'', w2)
                 else
                   (case gate_id body of
                      PNone \<Rightarrow> (Abort 400 ''No gate specified.'', w2)
                    | PStr _ \<Rightarrow> (Abort 400 ''Invalid gate ID.'', w2)
                    | PInt gid \<Rightarrow>
                        let w3 = log_event (GetGate gid) w2 in
                        (case gates w3 gid of
                           None \<Rightarrow> (Abort 404 (''Gate '' @ str_int gid @ '' not found''), w3)
                         | Some gate \<Rightarrow>
                             let w4 = log_event
                                        (CreateLaunchIssue fid gid (continuity_id feature)) w3
                             in
                             (case create fid gid (continuity_id feature) of
                                Raises RequestException \<Rightarrow>
                                  (Abort 500 ''Error obtaining origin trial data from API'', w4)
                              | Raises KeyError \<Rightarrow>
                                  (Abort 500 ''Malformed response from origin trials API'', w4)
                              | Raises OtherException \<Rightarrow> (Uncaught OtherException, w4)
                              | Returns (issue_id, failed_reason) \<Rightarrow>
                                  let w5 =
                                    (case issue_id of
                                       None \<Rightarrow> w4
                                     | Some i \<Rightarrow>
                                         put_feature fid
                                           (feature\<lparr>launch_issue_id := Some i\<rparr>) w4)
                                  in
                                  if truthy_str failed_reason
                                  then (Abort 500 (the failed_reason), w5)
                                  else (Return \<lparr>message = ''Security review issue ''
                                                  @ str_opt_int issue_id @ '' created''\<rparr>,
                                        w5))))))"


section \<open>Properties of the handlers\<close>

subsection \<open>Vocabulary and example data\<close>

text \<open>
  A request passes all eight checks of \<open>do_post\<close>: the feature id is an integer, the
  feature exists and has no launch issue, the permission check gives \<open>None\<close>, the gate
  id is an integer and the gate exists.
\<close>

definition checks_pass ::
  "(int \<Rightarrow> response option) \<Rightarrow> CreateLaunchIssueRequest \<Rightarrow> 'g world
     \<Rightarrow> int \<Rightarrow> int \<Rightarrow> FeatureEntry \<Rightarrow> bool" where
  "checks_pass perm body w fid gid feature =
     (feature_id body = PInt fid \<and> features w fid = Some feature
      \<and> launch_issue_id feature = None \<and> perm fid = None
      \<and> gate_id body = PInt gid \<and> gates w gid \<noteq> None)"

text \<open>What such a request has asked of the collaborators once the client has been called.\<close>

definition reached_client :: "int \<Rightarrow> int \<Rightarrow> FeatureEntry \<Rightarrow> event list" where
  "reached_client fid gid feature =
     [GetFeature fid, ValidatePermission fid, GetGate gid,
      CreateLaunchIssue fid gid (continuity_id feature)]"

text \<open>
  A datastore with feature 42 (no launch issue), feature 43 (launch issue 100) and
  gate 7, and the body \<open>{feature_id: 42, gate_id: 7}\<close>.
\<close>

definition feature_42 :: FeatureEntry where
  "feature_42 = \<lparr>continuity_id = Some 9, launch_issue_id = None\<rparr>"

definition example_world :: "unit world" where
  "example_world =
     \<lparr>features = [42 \<mapsto> feature_42,
                  43 \<mapsto> \<lparr>continuity_id = None, launch_issue_id = Some 100\<rparr>],
      gates = [7 \<mapsto> ()], trace = []\<rparr>"

definition example_body :: CreateLaunchIssueRequest where
  "example_body = \<lparr>feature_id = PInt 42, gate_id = PInt 7\<rparr>"

definition no_redirect :: "int \<Rightarrow> response option" where
  "no_redirect fid = None"

definition login_redirect :: "int \<Rightarrow> response option" where
  "login_redirect fid = Some (Redirect ''/login'')"

text \<open>A client that answers every call with the same result.\<close>

definition client_gives ::
  "(int option \<times> string option) client_result
     \<Rightarrow> int \<Rightarrow> int \<Rightarrow> int option \<Rightarrow> (int option \<times> string option) client_result" where
  "client_gives r fid gid cid = r"

definition verify_gives :: "string client_result \<Rightarrow> int \<Rightarrow> string client_result" where
  "verify_gives r cid = r"

text \<open>
  An \<open>int\<close> that gives the same answer at every text. An example uses it with the answer
  \<open>int\<close> has at the text of that example: \<open>int('123')\<close> is 123, \<open>int('abc')\<close> raises
  \<open>ValueError\<close>.
\<close>

definition int_gives :: "int option \<Rightarrow> string \<Rightarrow> int option" where
  "int_gives r s = r"

subsection \<open>Auxiliary facts\<close>

lemma str_int_555: "str_int 555 = ''555''"
  by code_simp

lemma str_int_41: "str_int 41 = ''41''"
  by code_simp

lemma str_int_8: "str_int 8 = ''8''"
  by code_simp

lemma checks_pass_example: "checks_pass no_redirect example_body example_world 42 7 feature_42"
  by (simp add: checks_pass_def no_redirect_def example_body_def example_world_def
      feature_42_def)

text \<open>
  After the eight checks the handler has logged the three lookups and the call, and
  what is left is the \<open>try\<close> block and the lines after it.
\<close>

lemma do_post_reaches_client:
  assumes "checks_pass perm body w fid gid feature"
  shows "do_post perm create body w =
    (let w4 = w\<lparr>trace := trace w @ reached_client fid gid feature\<rparr> in
     case create fid gid (continuity_id feature) of
        Raises RequestException \<Rightarrow>
          (Abort 500 ''Error obtaining origin trial data from API'', w4)
      | Raises KeyError \<Rightarrow>
          (Abort 500 ''Malformed response from origin trials API'', w4)
      | Raises OtherException \<Rightarrow> (Uncaught OtherException, w4)
      | Returns (issue_id, failed_reason) \<Rightarrow>
          let w5 = (case issue_id of None \<Rightarrow> w4
                    | Some i \<Rightarrow> put_feature fid (feature\<lparr>launch_issue_id := Some i\<rparr>) w4)
          in if truthy_str failed_reason then (Abort 500 (the failed_reason), w5)
             else (Return \<lparr>message = ''Security review issue '' @ str_opt_int issue_id
                                         @ '' created''\<rparr>, w5))"
  using assms
  by (auto simp: checks_pass_def do_post_def log_event_def truthy_response_def
      reached_client_def Let_def split: client_result.splits client_exc.splits)

text \<open>Only the feature named in the body can be written, and only when it had no issue.\<close>

lemma do_post_features:
  "features (snd (do_post perm create body w)) k = features w k
   \<or> (feature_id body = PInt k
      \<and> (\<exists>feature i. features w k = Some feature \<and> launch_issue_id feature = None
            \<and> features (snd (do_post perm create body w)) k
                = Some (feature\<lparr>launch_issue_id := Some i\<rparr>)))"
  by (auto simp: do_post_def log_event_def put_feature_def Let_def
      split: pyval.splits option.splits client_result.splits client_exc.splits)

subsection \<open>What the handlers guarantee\<close>

text \<open>
  C1. When the checks pass and \<open>create_launch_issue\<close> returns an issue id together
  with a non-empty \<open>failed_reason\<close>, the handler writes the issue id to the feature
  (the put is the last thing logged) and then aborts with status 500 and exactly that
  reason as the message. The world it leaves holds the write: nothing is rolled back.
\<close>

theorem do_post_partial_persistence:
  assumes "checks_pass perm body w fid gid feature"
    and "create fid gid (continuity_id feature) = Returns (Some issue_id, Some failed_reason)"
    and "failed_reason \<noteq> []"
  shows "do_post perm create body w =
    (Abort 500 failed_reason,
     w\<lparr>features := (features w)(fid \<mapsto> feature\<lparr>launch_issue_id := Some issue_id\<rparr>),
       trace := trace w @ reached_client fid gid feature
                @ [PutFeature fid (feature\<lparr>launch_issue_id := Some issue_id\<rparr>)]\<rparr>)"
  using assms
  by (simp add: do_post_reaches_client truthy_str_def put_feature_def log_event_def)

theorem do_post_partial_persistence_witness:
  "do_post no_redirect (client_gives (Returns (Some 555, Some ''tracker quota exceeded'')))
     example_body example_world =
   (Abort 500 ''tracker quota exceeded'',
    example_world\<lparr>features := (features example_world)
        (42 \<mapsto> \<lparr>continuity_id = Some 9, launch_issue_id = Some 555\<rparr>),
      trace := [GetFeature 42, ValidatePermission 42, GetGate 7, CreateLaunchIssue 42 7 (Some 9),
                PutFeature 42 \<lparr>continuity_id = Some 9, launch_issue_id = Some 555\<rparr>]\<rparr>)"
  using do_post_partial_persistence [OF checks_pass_example,
      of "client_gives (Returns (Some 555, Some ''tracker quota exceeded''))"
         555 "''tracker quota exceeded''"]
  by (simp add: client_gives_def example_world_def reached_client_def feature_42_def)

text \<open>
  C2. The checks of \<open>do_post\<close> come in this order, and the first one that fails decides
  the answer whatever the later ones would say: (1) no feature id, 400; (2) feature id
  not an integer, 400; (3) feature not found, 404; (4) feature already has a launch
  issue, 400; (5) no edit permission, 403; (6) no gate id, 400; (7) gate id not an
  integer, 400; (8) gate not found, 404. The log shows that nothing behind the failing
  check was consulted; the permission check is asked only after checks 1 to 4.
\<close>

theorem do_post_check_order:
  "(feature_id body = PNone \<longrightarrow>
      do_post perm create body w = (Abort 400 ''No feature specified.'', w))
   \<and> (feature_id body = PStr s \<longrightarrow>
      do_post perm create body w = (Abort 400 ''Invalid feature ID.'', w))
   \<and> (feature_id body = PInt fid \<and> features w fid = None \<longrightarrow>
      do_post perm create body w =
        (Abort 404 (''Feature '' @ str_int fid @ '' not found''),
         w\<lparr>trace := trace w @ [GetFeature fid]\<rparr>))
   \<and> (feature_id body = PInt fid \<and> features w fid = Some feature
        \<and> launch_issue_id feature \<noteq> None \<longrightarrow>
      do_post perm create body w =
        (Abort 400 ''Feature already has a security review issue.'',
         w\<lparr>trace := trace w @ [GetFeature fid]\<rparr>))
   \<and> (feature_id body = PInt fid \<and> features w fid = Some feature
        \<and> launch_issue_id feature = None \<and> perm fid \<noteq> None \<longrightarrow>
      do_post perm create body w =
        (Abort 403 ''User does not have permission to edit this feature.'',
         w\<lparr>trace := trace w @ [GetFeature fid, ValidatePermission fid]\<rparr>))
   \<and> (feature_id body = PInt fid \<and> features w fid = Some feature
        \<and> launch_issue_id feature = None \<and> perm fid = None \<and> gate_id body = PNone \<longrightarrow>
      do_post perm create body w =
        (Abort 400 ''No gate specified.'',
         w\<lparr>trace := trace w @ [GetFeature fid, ValidatePermission fid]\<rparr>))
   \<and> (feature_id body = PInt fid \<and> features w fid = Some feature
        \<and> launch_issue_id feature = None \<and> perm fid = None \<and> gate_id body = PStr t \<longrightarrow>
      do_post perm create body w =
        (Abort 400 ''Invalid gate ID.'',
         w\<lparr>trace := trace w @ [GetFeature fid, ValidatePermission fid]\<rparr>))
   \<and> (feature_id body = PInt fid \<and> features w fid = Some feature
        \<and> launch_issue_id feature = None \<and> perm fid = None \<and> gate_id body = PInt gid
        \<and> gates w gid = None \<longrightarrow>
      do_post perm create body w =
        (Abort 404 (''Gate '' @ str_int gid @ '' not found''),
         w\<lparr>trace := trace w @ [GetFeature fid, ValidatePermission fid, GetGate gid]\<rparr>))"
  by (auto simp: do_post_def log_event_def truthy_response_def Let_def)

theorem do_post_check_order_witness:
  "do_post no_redirect (client_gives (Returns (Some 555, None)))
      \<lparr>feature_id = PNone, gate_id = PInt 7\<rparr> example_world
     = (Abort 400 ''No feature specified.'', example_world)
   \<and> do_post no_redirect (client_gives (Returns (Some 555, None)))
      \<lparr>feature_id = PStr ''42'', gate_id = PInt 7\<rparr> example_world
     = (Abort 400 ''Invalid feature ID.'', example_world)
   \<and> do_post login_redirect (client_gives (Returns (Some 555, None)))
      \<lparr>feature_id = PInt 41, gate_id = PNone\<rparr> example_world
     = (Abort 404 ''Feature 41 not found'', example_world\<lparr>trace := [GetFeature 41]\<rparr>)
   \<and> do_post login_redirect (client_gives (Returns (Some 555, None)))
      \<lparr>feature_id = PInt 43, gate_id = PNone\<rparr> example_world
     = (Abort 400 ''Feature already has a security review issue.'',
        example_world\<lparr>trace := [GetFeature 43]\<rparr>)
   \<and> do_post login_redirect (client_gives (Returns (Some 555, None)))
      \<lparr>feature_id = PInt 42, gate_id = PNone\<rparr> example_world
     = (Abort 403 ''User does not have permission to edit this feature.'',
        example_world\<lparr>trace := [GetFeature 42, ValidatePermission 42]\<rparr>)
   \<and> do_post no_redirect (client_gives (Returns (Some 555, None)))
      \<lparr>feature_id = PInt 42, gate_id = PNone\<rparr> example_world
     = (Abort 400 ''No gate specified.'',
        example_world\<lparr>trace := [GetFeature 42, ValidatePermission 42]\<rparr>)
   \<and> do_post no_redirect (client_gives (Returns (Some 555, None)))
      \<lparr>feature_id = PInt 42, gate_id = PStr ''seven''\<rparr> example_world
     = (Abort 400 ''Invalid gate ID.'',
        example_world\<lparr>trace := [GetFeature 42, ValidatePermission 42]\<rparr>)
   \<and> do_post no_redirect (client_gives (Returns (Some 555, None)))
      \<lparr>feature_id = PInt 42, gate_id = PInt 8\<rparr> example_world
     = (Abort 404 ''Gate 8 not found'',
        example_world\<lparr>trace := [GetFeature 42, ValidatePermission 42, GetGate 8]\<rparr>)"
  using
    do_post_check_order [of "\<lparr>feature_id = PNone, gate_id = PInt 7\<rparr>" no_redirect
      "client_gives (Returns (Some 555, None))" example_world]
    do_post_check_order [of "\<lparr>feature_id = PStr ''42'', gate_id = PInt 7\<rparr>" no_redirect
      "client_gives (Returns (Some 555, None))" example_world "''42''"]
    do_post_check_order [of "\<lparr>feature_id = PInt 41, gate_id = PNone\<rparr>" login_redirect
      "client_gives (Returns (Some 555, None))" example_world _ 41]
    do_post_check_order [of "\<lparr>feature_id = PInt 43, gate_id = PNone\<rparr>" login_redirect
      "client_gives (Returns (Some 555, None))" example_world _ 43
      "\<lparr>continuity_id = None, launch_issue_id = Some 100\<rparr>"]
    do_post_check_order [of "\<lparr>feature_id = PInt 42, gate_id = PNone\<rparr>" login_redirect
      "client_gives (Returns (Some 555, None))" example_world _ 42 feature_42]
    do_post_check_order [of "\<lparr>feature_id = PInt 42, gate_id = PNone\<rparr>" no_redirect
      "client_gives (Returns (Some 555, None))" example_world _ 42 feature_42]
    do_post_check_order [of "\<lparr>feature_id = PInt 42, gate_id = PStr ''seven''\<rparr>" no_redirect
      "client_gives (Returns (Some 555, None))" example_world _ 42 feature_42 "''seven''"]
    do_post_check_order [of "\<lparr>feature_id = PInt 42, gate_id = PInt 8\<rparr>" no_redirect
      "client_gives (Returns (Some 555, None))" example_world _ 42 feature_42 _ 8]
  by (simp add: example_world_def feature_42_def no_redirect_def login_redirect_def
      str_int_41 str_int_8)

text \<open>
  C3. When the feature exists without a launch issue, the caller may edit it, the gate
  exists and \<open>create_launch_issue\<close> returns \<open>(issue_id, None)\<close> with an integer issue id,
  the handler stores the issue id on the feature and returns the message
  ``Security review issue <issue\_id> created''.
\<close>

theorem do_post_success:
  assumes "checks_pass perm body w fid gid feature"
    and "create fid gid (continuity_id feature) = Returns (Some issue_id, None)"
  shows "do_post perm create body w =
    (Return \<lparr>message = ''Security review issue '' @ str_int issue_id @ '' created''\<rparr>,
     w\<lparr>features := (features w)(fid \<mapsto> feature\<lparr>launch_issue_id := Some issue_id\<rparr>),
       trace := trace w @ reached_client fid gid feature
                @ [PutFeature fid (feature\<lparr>launch_issue_id := Some issue_id\<rparr>)]\<rparr>)"
  using assms
  by (simp add: do_post_reaches_client truthy_str_def put_feature_def log_event_def
      str_opt_int_def)

theorem do_post_success_witness:
  "do_post no_redirect (client_gives (Returns (Some 555, None))) example_body example_world =
   (Return \<lparr>message = ''Security review issue 555 created''\<rparr>,
    example_world\<lparr>features := (features example_world)
        (42 \<mapsto> \<lparr>continuity_id = Some 9, launch_issue_id = Some 555\<rparr>),
      trace := [GetFeature 42, ValidatePermission 42, GetGate 7, CreateLaunchIssue 42 7 (Some 9),
                PutFeature 42 \<lparr>continuity_id = Some 9, launch_issue_id = Some 555\<rparr>]\<rparr>)"
  using do_post_success [OF checks_pass_example,
      of "client_gives (Returns (Some 555, None))" 555]
  by (simp add: client_gives_def example_world_def reached_client_def feature_42_def
      str_int_555)

text \<open>
  C4. When the feature named in the body exists and already has a launch issue, the
  handler aborts with status 400 whatever the gate id is; it has only looked the
  feature up, so the client is not called and nothing is written. More generally no
  call of the handler changes a feature that has a launch issue, so a feature never
  gets a second one here.
\<close>

theorem do_post_existing_issue_rejected:
  "(feature_id body = PInt fid \<and> features w fid = Some feature
      \<and> launch_issue_id feature = Some old \<longrightarrow>
      do_post perm create body w =
        (Abort 400 ''Feature already has a security review issue.'',
         w\<lparr>trace := trace w @ [GetFeature fid]\<rparr>))
   \<and> (features w k = Some f \<and> launch_issue_id f \<noteq> None \<longrightarrow>
      features (snd (do_post perm create body w)) k = Some f)"
proof (intro conjI impI)
  assume "feature_id body = PInt fid \<and> features w fid = Some feature
      \<and> launch_issue_id feature = Some old"
  then show "do_post perm create body w =
        (Abort 400 ''Feature already has a security review issue.'',
         w\<lparr>trace := trace w @ [GetFeature fid]\<rparr>)"
    by (simp add: do_post_def log_event_def)
next
  assume k: "features w k = Some f \<and> launch_issue_id f \<noteq> None"
  from do_post_features [of perm create body w k]
  show "features (snd (do_post perm create body w)) k = Some f"
    using k by auto
qed

theorem do_post_existing_issue_rejected_witness:
  "do_post no_redirect (client_gives (Returns (Some 555, None)))
      \<lparr>feature_id = PInt 43, gate_id = PInt 8\<rparr> example_world
     = (Abort 400 ''Feature already has a security review issue.'',
        example_world\<lparr>trace := [GetFeature 43]\<rparr>)
   \<and> features (snd (do_post no_redirect (client_gives (Returns (Some 555, None)))
        \<lparr>feature_id = PInt 43, gate_id = PInt 7\<rparr> example_world)) 43
     = Some \<lparr>continuity_id = None, launch_issue_id = Some 100\<rparr>
   \<and> features (snd (do_post no_redirect (client_gives (Returns (Some 555, None)))
        example_body example_world)) 43
     = Some \<lparr>continuity_id = None, launch_issue_id = Some 100\<rparr>"
  using
    do_post_existing_issue_rejected [of example_body 42 example_world feature_42 100
      no_redirect "client_gives (Returns (Some 555, None))" 43
      "\<lparr>continuity_id = None, launch_issue_id = Some 100\<rparr>"]
    do_post_existing_issue_rejected [of "\<lparr>feature_id = PInt 43, gate_id = PInt 8\<rparr>" 43
      example_world "\<lparr>continuity_id = None, launch_issue_id = Some 100\<rparr>" 100 no_redirect
      "client_gives (Returns (Some 555, None))" 43
      "\<lparr>continuity_id = None, launch_issue_id = Some 100\<rparr>"]
    do_post_existing_issue_rejected [of "\<lparr>feature_id = PInt 43, gate_id = PInt 7\<rparr>" 43
      example_world "\<lparr>continuity_id = None, launch_issue_id = Some 100\<rparr>" 100 no_redirect
      "client_gives (Returns (Some 555, None))" 43
      "\<lparr>continuity_id = None, launch_issue_id = Some 100\<rparr>"]
  by (simp add: example_world_def)

text \<open>
  C5. When the feature id is an integer, the feature exists and has no launch issue,
  and the permission check gives a response instead of \<open>None\<close>, the handler aborts with
  status 403. It has looked the feature up and asked for the permission and nothing
  else: the client is not called and the datastore is as it was.
\<close>

theorem do_post_no_permission:
  assumes "feature_id body = PInt fid"
    and "features w fid = Some feature"
    and "launch_issue_id feature = None"
    and "perm fid = Some redirect_resp"
  shows "do_post perm create body w =
    (Abort 403 ''User does not have permission to edit this feature.'',
     w\<lparr>trace := trace w @ [GetFeature fid, ValidatePermission fid]\<rparr>)"
  using assms
  by (simp add: do_post_def log_event_def truthy_response_def)

theorem do_post_no_permission_witness:
  "do_post login_redirect (client_gives (Returns (Some 555, None))) example_body example_world =
    (Abort 403 ''User does not have permission to edit this feature.'',
     example_world\<lparr>trace := [GetFeature 42, ValidatePermission 42]\<rparr>)"
  using do_post_no_permission [of example_body 42 example_world feature_42 login_redirect
      "Redirect ''/login''" "client_gives (Returns (Some 555, None))"]
  by (simp add: example_body_def example_world_def feature_42_def login_redirect_def)

text \<open>
  C6. When the \<open>continuity_id\<close> parameter of a \<open>do_get\<close> request is absent or empty,
  the handler aborts with status 400 and ``No continuity ID specified.''; when it is
  there but \<open>int\<close> raises \<open>ValueError\<close> on it, the handler aborts with status 400 and
  ``Invalid continuity ID.''. This holds for every text and whatever \<open>int\<close> accepts. In
  both cases the world is returned as it was: the log has not grown, so the
  verification client was not called.
\<close>

theorem do_get_bad_id_rejected:
  "(continuity_id_arg = None \<or> continuity_id_arg = Some [] \<longrightarrow>
      do_get int_of_text verify from_dict continuity_id_arg w
        = (Abort 400 ''No continuity ID specified.'', w))
   \<and> (continuity_id_arg = Some s \<and> s \<noteq> [] \<and> int_of_text s = None \<longrightarrow>
      do_get int_of_text verify from_dict continuity_id_arg w
        = (Abort 400 ''Invalid continuity ID.'', w))"
  by (auto simp: do_get_def truthy_str_def)

theorem do_get_bad_id_rejected_witness:
  "do_get (int_gives None) (verify_gives (Returns ''ok'')) length None example_world
     = (Abort 400 ''No continuity ID specified.'', example_world)
   \<and> do_get (int_gives None) (verify_gives (Returns ''ok'')) length (Some '''') example_world
     = (Abort 400 ''No continuity ID specified.'', example_world)
   \<and> do_get (int_gives None) (verify_gives (Returns ''ok'')) length (Some ''abc'')
        example_world
     = (Abort 400 ''Invalid continuity ID.'', example_world)"
  using
    do_get_bad_id_rejected [where continuity_id_arg = None and int_of_text = "int_gives None"
      and verify = "verify_gives (Returns ''ok'')" and from_dict = length
      and w = example_world]
    do_get_bad_id_rejected [where continuity_id_arg = "Some ''''"
      and int_of_text = "int_gives None" and verify = "verify_gives (Returns ''ok'')"
      and from_dict = length and w = example_world]
    do_get_bad_id_rejected [where continuity_id_arg = "Some ''abc''" and s = "''abc''"
      and int_of_text = "int_gives None" and verify = "verify_gives (Returns ''ok'')"
      and from_dict = length and w = example_world]
  by (simp add: int_gives_def)

text \<open>
  C7. When the \<open>continuity_id\<close> parameter of a \<open>do_get\<close> request is a text that \<open>int\<close>
  parses as an integer and the verification call raises \<open>RequestException\<close>, the
  handler aborts with status 500 and ``Error obtaining origin trial data from API'';
  when the call raises \<open>KeyError\<close> (a malformed response), it aborts with status 500 and
  ``Malformed response from origin trials API''. In \<open>do_post\<close> too a \<open>KeyError\<close> of the
  client call ends in status 500 with that message, never in a 400 or a normal return.
\<close>

theorem upstream_failure_is_500:
  "(s \<noteq> [] \<and> int_of_text s = Some cid \<and> verify cid = Raises RequestException \<longrightarrow>
      fst (do_get int_of_text verify from_dict (Some s) w)
        = Abort 500 ''Error obtaining origin trial data from API'')
   \<and> (s \<noteq> [] \<and> int_of_text s = Some cid \<and> verify cid = Raises KeyError \<longrightarrow>
      fst (do_get int_of_text verify from_dict (Some s) w)
        = Abort 500 ''Malformed response from origin trials API'')
   \<and> (checks_pass perm body w fid gid feature
        \<and> create fid gid (continuity_id feature) = Raises KeyError \<longrightarrow>
      fst (do_post perm create body w)
        = Abort 500 ''Malformed response from origin trials API'')"
proof (intro conjI impI)
  assume "s \<noteq> [] \<and> int_of_text s = Some cid \<and> verify cid = Raises RequestException"
  then show "fst (do_get int_of_text verify from_dict (Some s) w)
        = Abort 500 ''Error obtaining origin trial data from API''"
    by (simp add: do_get_def truthy_str_def Let_def)
next
  assume "s \<noteq> [] \<and> int_of_text s = Some cid \<and> verify cid = Raises KeyError"
  then show "fst (do_get int_of_text verify from_dict (Some s) w)
        = Abort 500 ''Malformed response from origin trials API''"
    by (simp add: do_get_def truthy_str_def Let_def)
next
  assume a: "checks_pass perm body w fid gid feature
        \<and> create fid gid (continuity_id feature) = Raises KeyError"
  then have "checks_pass perm body w fid gid feature"
    by simp
  from do_post_reaches_client [OF this, of create] a
  show "fst (do_post perm create body w)
        = Abort 500 ''Malformed response from origin trials API''"
    by simp
qed

theorem upstream_failure_is_500_witness:
  "fst (do_get (int_gives (Some 123)) (verify_gives (Raises RequestException)) length
         (Some ''123'') example_world)
     = Abort 500 ''Error obtaining origin trial data from API''
   \<and> fst (do_get (int_gives (Some 123)) (verify_gives (Raises KeyError)) length
         (Some ''123'') example_world)
     = Abort 500 ''Malformed response from origin trials API''
   \<and> fst (do_post no_redirect (client_gives (Raises KeyError)) example_body example_world)
     = Abort 500 ''Malformed response from origin trials API''"
  using
    upstream_failure_is_500 [where s = "''123''" and cid = 123
      and int_of_text = "int_gives (Some 123)"
      and verify = "verify_gives (Raises RequestException)" and from_dict = length
      and w = example_world and perm = no_redirect and body = example_body and fid = 42
      and gid = 7 and feature = feature_42 and create = "client_gives (Raises KeyError)"]
    upstream_failure_is_500 [where s = "''123''" and cid = 123
      and int_of_text = "int_gives (Some 123)"
      and verify = "verify_gives (Raises KeyError)" and from_dict = length
      and w = example_world and perm = no_redirect and body = example_body and fid = 42
      and gid = 7 and feature = feature_42 and create = "client_gives (Raises KeyError)"]
    checks_pass_example
  by (simp add: int_gives_def verify_gives_def client_gives_def)

text \<open>
  C8. When the \<open>continuity_id\<close> parameter of a \<open>do_get\<close> request is a text that \<open>int\<close>
  parses as the integer \<open>cid\<close>, the handler calls the verification client exactly once,
  with \<open>cid\<close>: the log grows by that one call and the datastore is untouched, however
  the call ends. When the call returns \<open>resp\<close>, the handler returns \<open>from_dict resp\<close>.
\<close>

theorem do_get_single_call:
  assumes "s \<noteq> []"
    and "int_of_text s = Some cid"
  shows "snd (do_get int_of_text verify from_dict (Some s) w)
           = w\<lparr>trace := trace w @ [VerifyContinuityIssue cid]\<rparr>
         \<and> (verify cid = Returns resp \<longrightarrow>
              fst (do_get int_of_text verify from_dict (Some s) w) = Return (from_dict resp))"
  using assms
  by (auto simp: do_get_def truthy_str_def log_event_def Let_def
      split: client_result.splits client_exc.splits)

theorem do_get_single_call_witness:
  "snd (do_get (int_gives (Some 123)) (verify_gives (Returns ''ok'')) length (Some ''123'')
         example_world)
     = example_world\<lparr>trace := [VerifyContinuityIssue 123]\<rparr>
   \<and> fst (do_get (int_gives (Some 123)) (verify_gives (Returns ''ok'')) length (Some ''123'')
         example_world)
     = Return 2"
  using do_get_single_call [where s = "''123''" and cid = 123
      and int_of_text = "int_gives (Some 123)" and verify = "verify_gives (Returns ''ok'')"
      and from_dict = length and w = example_world and resp = "''ok''"]
  by (simp add: int_gives_def verify_gives_def example_world_def)

text \<open>
  C9. When the checks pass and the call of \<open>create_launch_issue\<close> raises
  \<open>RequestException\<close> or \<open>KeyError\<close>, the handler aborts with status 500. The log ends
  with the call: no put follows it, every feature is as it was, and the feature of the
  request still has no launch issue.
\<close>

theorem do_post_upstream_exception_no_write:
  assumes "checks_pass perm body w fid gid feature"
    and "create fid gid (continuity_id feature) = Raises e"
    and "e = RequestException \<or> e = KeyError"
  shows "do_post perm create body w =
    (Abort 500 (if e = RequestException then ''Error obtaining origin trial data from API''
                else ''Malformed response from origin trials API''),
     w\<lparr>trace := trace w @ reached_client fid gid feature\<rparr>)
    \<and> features (snd (do_post perm create body w)) = features w
    \<and> (\<exists>f. features (snd (do_post perm create body w)) fid = Some f
            \<and> launch_issue_id f = None)"
proof -
  note after_checks = do_post_reaches_client [OF assms(1), of create]
  from assms(1) have "features w fid = Some feature" and "launch_issue_id feature = None"
    by (simp_all add: checks_pass_def)
  with after_checks assms(2,3) show ?thesis
    by auto
qed

theorem do_post_upstream_exception_no_write_witness:
  "do_post no_redirect (client_gives (Raises RequestException)) example_body example_world
     = (Abort 500 ''Error obtaining origin trial data from API'',
        example_world\<lparr>trace := [GetFeature 42, ValidatePermission 42, GetGate 7,
                                CreateLaunchIssue 42 7 (Some 9)]\<rparr>)
   \<and> do_post no_redirect (client_gives (Raises KeyError)) example_body example_world
     = (Abort 500 ''Malformed response from origin trials API'',
        example_world\<lparr>trace := [GetFeature 42, ValidatePermission 42, GetGate 7,
                                CreateLaunchIssue 42 7 (Some 9)]\<rparr>)"
  using
    do_post_upstream_exception_no_write [OF checks_pass_example,
      of "client_gives (Raises RequestException)" RequestException]
    do_post_upstream_exception_no_write [OF checks_pass_example,
      of "client_gives (Raises KeyError)" KeyError]
  by (simp add: client_gives_def example_world_def reached_client_def feature_42_def)

text \<open>
  C10. When the checks pass and \<open>create_launch_issue\<close> returns \<open>(None, None)\<close>, the
  handler writes nothing (no put in the log, the datastore as it was) and still returns
  normally, with the message ``Security review issue None created''.
\<close>

theorem do_post_no_issue_still_succeeds:
  assumes "checks_pass perm body w fid gid feature"
    and "create fid gid (continuity_id feature) = Returns (None, None)"
  shows "do_post perm create body w =
    (Return \<lparr>message = ''Security review issue None created''\<rparr>,
     w\<lparr>trace := trace w @ reached_client fid gid feature\<rparr>)"
  using assms
  by (simp add: do_post_reaches_client truthy_str_def str_opt_int_def)

theorem do_post_no_issue_still_succeeds_witness:
  "do_post no_redirect (client_gives (Returns (None, None))) example_body example_world =
    (Return \<lparr>message = ''Security review issue None created''\<rparr>,
     example_world\<lparr>trace := [GetFeature 42, ValidatePermission 42, GetGate 7,
                             CreateLaunchIssue 42 7 (Some 9)]\<rparr>)
   \<and> features (snd (do_post no_redirect (client_gives (Returns (None, None)))
        example_body example_world)) 42 = Some \<lparr>continuity_id = Some 9, launch_issue_id = None\<rparr>"
  using do_post_no_issue_still_succeeds [OF checks_pass_example,
      of "client_gives (Returns (None, None))"]
  by (simp add: client_gives_def example_world_def reached_client_def feature_42_def)

end
